theory Spec2Isabelle
  imports Main "HOL-Library.Word"
begin

unbundle bit_operations_syntax

section \<open>The step harness of sancus\_step.h on a model of the MSP430\<close>

text \<open>
  The header \<^verbatim>\<open>include/sancus_support/sancus_step.h\<close> consists of two macros:
  \<^verbatim>\<open>SANCUS_STEP_INIT\<close>, three register assignments behind a \<^verbatim>\<open>dint\<close>, and
  \<^verbatim>\<open>SANCUS_STEP_ISR(fct)\<close>, twelve lines of MSP430 assembly.  Both are embedded as
  lists of instructions, run by an interpreter for the instructions they use, on a machine
  of sixteen 16-bit registers and a word-addressed memory.  Peripheral registers and globals
  are memory words: their addresses come from \<^verbatim>\<open>msp430.h\<close> and from the linker, and are
  parameters here.
\<close>

subsection \<open>Constants of the header\<close>

type_synonym word16 = "16 word"

definition HW_IRQ_LATENCY :: word16 where
  "HW_IRQ_LATENCY = 34"


definition INIT_LATENCY :: word16 where
  "INIT_LATENCY = 42"

text \<open>
  The addresses behind the names the macros use: \<^verbatim>\<open>TAR\<close>, \<^verbatim>\<open>TACCR0\<close> and \<^verbatim>\<open>TACTL\<close>
  (the \<^verbatim>\<open>"m"\<close> operands \<^verbatim>\<open>%0\<close>, \<^verbatim>\<open>%1\<close>, \<^verbatim>\<open>%2\<close>, from \<^verbatim>\<open>msp430.h\<close>) and the globals
  \<^verbatim>\<open>__ss_isr_sp\<close> and \<^verbatim>\<open>__ss_isr_tar_entry\<close> (lines 14 and 16, placed by the linker),
  and the address of the array \<^verbatim>\<open>__ss_isr_stack\<close> of line 13.  Neither macro refers to
  the array, nor to the pointer \<^verbatim>\<open>__ss_isr_reti_addr\<close> of line 15, and nothing in the
  header makes \<^verbatim>\<open>__ss_isr_sp\<close> point into the array: where a property needs that, it
  says so.
\<close>

record symbols =
  TAR :: word16
  TACCR0 :: word16
  TACTL :: word16
  ss_isr_stack :: word16
  ss_isr_sp :: word16
  ss_isr_tar_entry :: word16

text \<open>
  The two values \<^verbatim>\<open>SANCUS_STEP_INIT\<close> takes from \<^verbatim>\<open>timer.h\<close>, which is not part of
  the sources at hand: they are parameters.
\<close>

record timer_h =
  TACTL_DISABLE :: word16
  TACTL_ENABLE :: word16

subsection \<open>Machine state\<close>

text \<open>
  Register 0 is the program counter, register 1 the stack pointer, register 2 the status
  register.  Memory is read and written in words; every access of the two macros is a word
  access.  The processor keeps the lowest bit of the program counter and of the stack
  pointer zero: a value loaded into either loses that bit.  The program counter is not
  followed through a macro body, where the place in the list of instructions stands for
  it; \<^verbatim>\<open>reti\<close> loads it.
\<close>

record machine =
  regs :: "nat \<Rightarrow> word16"
  mem :: "word16 \<Rightarrow> word16"

definition flag_C :: word16 where "flag_C = 0x0001"
definition flag_Z :: word16 where "flag_Z = 0x0002"
definition flag_N :: word16 where "flag_N = 0x0004"
definition GIE :: word16 where "GIE = 0x0008"
definition flag_V :: word16 where "flag_V = 0x0100"

definition aligned :: "word16 \<Rightarrow> word16" where
  "aligned v = v AND NOT 1"

datatype operand = Reg nat | Imm word16 | Abs word16

datatype instr =
    MOV operand operand
  | CMP operand operand
  | JNE nat
  | JMP nat
  | PUSH operand
  | CALL operand
  | RETI
  | DINT

text \<open>A line of assembly is an instruction or the definition of a local label.\<close>

datatype item = Ins instr | Lbl nat

fun read_op :: "machine \<Rightarrow> operand \<Rightarrow> word16" where
  "read_op s (Reg n) = regs s n"
| "read_op s (Imm v) = v"
| "read_op s (Abs a) = mem s a"

text \<open>An immediate is no destination; the assembler rejects it, the model leaves the state.\<close>

fun write_op :: "operand \<Rightarrow> word16 \<Rightarrow> machine \<Rightarrow> machine" where
  "write_op (Reg n) v s = s\<lparr>regs := (regs s)(n := if n \<le> 1 then aligned v else v)\<rparr>"
| "write_op (Abs a) v s = s\<lparr>mem := (mem s)(a := v)\<rparr>"
| "write_op (Imm _) v s = s"

text \<open>\<^verbatim>\<open>push\<close>: the stack pointer goes down by two, then the word is stored where it points.\<close>

definition push :: "word16 \<Rightarrow> machine \<Rightarrow> machine" where
  "push v s =
     (let sp = regs s 1 - 2
      in s\<lparr>regs := (regs s)(1 := sp), mem := (mem s)(sp := v)\<rparr>)"

text \<open>
  \<^verbatim>\<open>cmp src, dst\<close> computes \<open>dst - src\<close> for the flags only: carry when there is no borrow,
  zero when the operands are equal, negative from the sign of the difference, overflow when
  the operands differ in sign and the difference has not the sign of \<open>dst\<close>.
\<close>

definition cmp_flags :: "word16 \<Rightarrow> word16 \<Rightarrow> word16" where
  "cmp_flags src dst =
     (if unat src \<le> unat dst then flag_C else 0) OR
     (if dst = src then flag_Z else 0) OR
     (if bit (dst - src) 15 then flag_N else 0) OR
     (if bit dst 15 \<noteq> bit src 15 \<and> bit (dst - src) 15 \<noteq> bit dst 15 then flag_V else 0)"

definition set_flags :: "word16 \<Rightarrow> machine \<Rightarrow> machine" where
  "set_flags f s =
     s\<lparr>regs := (regs s)(2 := (regs s 2 AND NOT (flag_C OR flag_Z OR flag_N OR flag_V)) OR f)\<rparr>"

definition zero_flag :: "machine \<Rightarrow> bool" where
  "zero_flag s = (regs s 2 AND flag_Z \<noteq> 0)"

text \<open>\<^verbatim>\<open>reti\<close> pops the status register, then the program counter.\<close>

definition reti :: "machine \<Rightarrow> machine" where
  "reti s =
     (let sp = regs s 1
      in s\<lparr>regs := (regs s)(2 := mem s sp, 0 := aligned (mem s (sp + 2)), 1 := sp + 4)\<rparr>)"

text \<open>\<^verbatim>\<open>dint\<close> clears the interrupt-enable bit of the status register.\<close>

definition dint :: "machine \<Rightarrow> machine" where
  "dint s = s\<lparr>regs := (regs s)(2 := regs s 2 AND NOT GIE)\<rparr>"

subsection \<open>Running a macro body\<close>

text \<open>
  What an executed instruction did: the destination and value of a move, the operands of a
  comparison, whether a conditional jump was taken, the slot and value of a push, the target
  of a call.  Between a call and the return from it the events are the callee's: one for
  every state it passes through, and its \<^verbatim>\<open>ret\<close>.
\<close>

datatype event =
    Ev_mov operand word16
  | Ev_cmp operand operand
  | Ev_jne nat bool
  | Ev_jmp nat
  | Ev_push word16 word16
  | Ev_call word16
  | Ev_inside
  | Ev_ret
  | Ev_reti
  | Ev_dint

text \<open>
  How a run ends: at a \<^verbatim>\<open>reti\<close>, at the end of the macro's text (execution goes on with
  what follows the macro), or in a callee that did not come back to its call site.
\<close>

datatype stop = AtReti | AtEnd | CallbackEscaped

type_synonym run = "(event \<times> machine) list \<times> stop"

definition step_cons :: "event \<times> machine \<Rightarrow> run \<Rightarrow> run" where
  "step_cons x r = (x # fst r, snd r)"

text \<open>Both jumps of the handler go forward (\<^verbatim>\<open>1f\<close>, \<^verbatim>\<open>2f\<close>): to the next definition of the label.\<close>

definition forward :: "nat \<Rightarrow> item list \<Rightarrow> item list" where
  "forward l p = dropWhile (\<lambda>i. i \<noteq> Lbl l) p"

text \<open>
  The interpreter.  Each executed instruction contributes its event and the state it leaves.
  The code behind a call is not part of the header: \<open>callee a s\<close> lists the states the
  routine at address \<open>a\<close>, entered in state \<open>s\<close>, passes through, the last being the
  one in which it executes its \<^verbatim>\<open>ret\<close> (none, when \<^verbatim>\<open>ret\<close> is its first instruction);
  \<open>ra\<close> is the address of the instruction after the call.  \<^verbatim>\<open>call\<close> pushes \<open>ra\<close>; the
  callee's \<^verbatim>\<open>ret\<close> pops a word into the program counter, and the run goes on only if that
  word is \<open>ra\<close>.
\<close>

function (sequential) run ::
  "(word16 \<Rightarrow> machine \<Rightarrow> machine list) \<Rightarrow> word16 \<Rightarrow> item list \<Rightarrow> machine \<Rightarrow> run" where
  "run callee ra [] s = ([], AtEnd)"
| "run callee ra (Lbl l # p) s = run callee ra p s"
| "run callee ra (Ins (MOV src dst) # p) s =
     (let v = read_op s src; s' = write_op dst v s
      in step_cons (Ev_mov dst v, s') (run callee ra p s'))"
| "run callee ra (Ins (CMP src dst) # p) s =
     (let s' = set_flags (cmp_flags (read_op s src) (read_op s dst)) s
      in step_cons (Ev_cmp src dst, s') (run callee ra p s'))"
| "run callee ra (Ins (JNE l) # p) s =
     (if zero_flag s then step_cons (Ev_jne l False, s) (run callee ra p s)
      else step_cons (Ev_jne l True, s) (run callee ra (forward l p) s))"
| "run callee ra (Ins (JMP l) # p) s =
     step_cons (Ev_jmp l, s) (run callee ra (forward l p) s)"
| "run callee ra (Ins (PUSH src) # p) s =
     (let v = read_op s src; s' = push v s
      in step_cons (Ev_push (regs s' 1) v, s') (run callee ra p s'))"
| "run callee ra (Ins (CALL dst) # p) s =
     (let a = read_op s dst; s0 = push ra s; ts = callee a s0; s1 = last (s0 # ts);
          s' = s1\<lparr>regs := (regs s1)(1 := regs s1 1 + 2)\<rparr>;
          steps = (Ev_call a, s0) # map (Pair Ev_inside) ts @ [(Ev_ret, s')]
      in if mem s1 (regs s1 1) = ra
         then (steps @ fst (run callee ra p s'), snd (run callee ra p s'))
         else (steps, CallbackEscaped))"
| "run callee ra (Ins RETI # p) s = ([(Ev_reti, reti s)], AtReti)"
| "run callee ra (Ins DINT # p) s =
     (let s' = dint s in step_cons (Ev_dint, s') (run callee ra p s'))"
  by pat_completeness auto

termination
  by (relation "measure (\<lambda>(callee, ra, p, s). length p)")
     (auto simp: forward_def intro: le_imp_less_Suc length_dropWhile_le)

definition trace :: "run \<Rightarrow> event list" where
  "trace r = map fst (fst r)"

definition states :: "run \<Rightarrow> machine list" where
  "states r = map snd (fst r)"

text \<open>The state a run ends in, given the state it began in.\<close>

definition final :: "machine \<Rightarrow> run \<Rightarrow> machine" where
  "final s r = last (s # states r)"

subsection \<open>The two macros\<close>

text \<open>
  \<^verbatim>\<open>SANCUS_STEP_INIT\<close> (lines 22 to 27): \<^verbatim>\<open>dint\<close>, then the assignments
  \<^verbatim>\<open>TACTL = TACTL_DISABLE; TACCR0 = INIT_LATENCY; TACTL = TACTL_ENABLE;\<close>
  to the memory-mapped registers.
\<close>

definition SANCUS_STEP_INIT :: "symbols \<Rightarrow> timer_h \<Rightarrow> item list" where
  "SANCUS_STEP_INIT sy h =
     [Ins DINT,
      Ins (MOV (Imm (TACTL_DISABLE h)) (Abs (TACTL sy))),
      Ins (MOV (Imm INIT_LATENCY) (Abs (TACCR0 sy))),
      Ins (MOV (Imm (TACTL_ENABLE h)) (Abs (TACTL sy)))]"

text \<open>\<^verbatim>\<open>SANCUS_STEP_ISR(fct)\<close> (lines 32 to 49), line by line; \<open>fct\<close> is the address of the callback.\<close>

definition SANCUS_STEP_ISR :: "symbols \<Rightarrow> word16 \<Rightarrow> item list" where
  "SANCUS_STEP_ISR sy fct =
     [Ins (MOV (Abs (TAR sy)) (Abs (ss_isr_tar_entry sy))),
      Ins (CMP (Imm 0x0) (Reg 1)),
      Ins (JNE 1),
      Ins (MOV (Abs (ss_isr_sp sy)) (Reg 1)),
      Ins (PUSH (Reg 15)),
      Ins (PUSH (Imm 0x0)),
      Ins (CALL (Imm fct)),
      Ins (MOV (Imm 0x41) (Abs (TACCR0 sy))),
      Ins (MOV (Imm 0x212) (Abs (TACTL sy))),
      Ins (JMP 2),
      Lbl 1,
      Ins (MOV (Imm 0x0) (Abs (TACTL sy))),
      Lbl 2,
      Ins RETI]"

subsection \<open>Reading runs\<close>





text \<open>The state in which the last instruction of a run is entered.\<close>

definition at_return :: "machine \<Rightarrow> run \<Rightarrow> machine" where
  "at_return s r = last (s # butlast (states r))"

text \<open>An interrupt is accepted only while the interrupt-enable bit of the status register is set.\<close>

definition gie_clear :: "machine \<Rightarrow> bool" where
  "gie_clear s = (regs s 2 AND GIE = 0)"

text \<open>
  The fields of the Timer\_A control register, as \<^verbatim>\<open>msp430.h\<close> lays them out: the clock
  source in bits 9 and 8, the mode in bits 5 and 4 (0 stops the timer, 1 counts up to
  \<^verbatim>\<open>TACCR0\<close>), the interrupt enable in bit 1.
\<close>

definition timer_source :: "word16 \<Rightarrow> word16" where
  "timer_source w = drop_bit 8 w AND 3"

definition timer_mode :: "word16 \<Rightarrow> word16" where
  "timer_mode w = drop_bit 4 w AND 3"

definition timer_irq :: "word16 \<Rightarrow> bool" where
  "timer_irq w = bit w 1"

definition timer_enabled :: "symbols \<Rightarrow> machine \<Rightarrow> bool" where
  "timer_enabled sy s = (timer_mode (mem s (TACTL sy)) \<noteq> 0)"



subsection \<open>The callback, seen from the handler\<close>

text \<open>
  The state in which the callback is entered when the handler finds \<open>r1 = 0\<close>: lines 33 to
  39 executed and the return address pushed by the \<^verbatim>\<open>call\<close> of line 40.
\<close>

definition callback_entry :: "symbols \<Rightarrow> word16 \<Rightarrow> machine \<Rightarrow> machine" where
  "callback_entry sy ra s =
     (let s1 = write_op (Abs (ss_isr_tar_entry sy)) (mem s (TAR sy)) s;
          s2 = set_flags (cmp_flags 0x0 (regs s1 1)) s1;
          s3 = write_op (Reg 1) (mem s2 (ss_isr_sp sy)) s2;
          s4 = push (regs s3 15) s3;
          s5 = push 0x0 s4
      in push ra s5)"

text \<open>The states the callback passes through, and the one in which it reaches its \<^verbatim>\<open>ret\<close>.\<close>

definition callback_states ::
  "(word16 \<Rightarrow> machine \<Rightarrow> machine list) \<Rightarrow> symbols \<Rightarrow> word16 \<Rightarrow> word16 \<Rightarrow> machine \<Rightarrow>
   machine list" where
  "callback_states callee sy fct ra s = callee fct (callback_entry sy ra s)"

definition callback_exit ::
  "(word16 \<Rightarrow> machine \<Rightarrow> machine list) \<Rightarrow> symbols \<Rightarrow> word16 \<Rightarrow> word16 \<Rightarrow> machine \<Rightarrow> machine" where
  "callback_exit callee sy fct ra s =
     last (callback_entry sy ra s # callback_states callee sy fct ra s)"

text \<open>The callback returns to the handler: its \<^verbatim>\<open>ret\<close> finds the return address on the stack.\<close>

definition comes_back ::
  "(word16 \<Rightarrow> machine \<Rightarrow> machine list) \<Rightarrow> symbols \<Rightarrow> word16 \<Rightarrow> word16 \<Rightarrow> machine \<Rightarrow> bool" where
  "comes_back callee sy fct ra s =
     (let c = callback_exit callee sy fct ra s in mem c (regs c 1) = ra)"

text \<open>
  What the handler needs of the callback beyond its coming back: that it returns with the
  stack pointer where it found it, and that it leaves a given word of memory as it found it.
\<close>

definition balanced ::
  "(word16 \<Rightarrow> machine \<Rightarrow> machine list) \<Rightarrow> symbols \<Rightarrow> word16 \<Rightarrow> word16 \<Rightarrow> machine \<Rightarrow> bool" where
  "balanced callee sy fct ra s =
     (regs (callback_exit callee sy fct ra s) 1 = regs (callback_entry sy ra s) 1)"

definition keeps ::
  "(word16 \<Rightarrow> machine \<Rightarrow> machine list) \<Rightarrow> symbols \<Rightarrow> word16 \<Rightarrow> word16 \<Rightarrow> machine \<Rightarrow> word16 \<Rightarrow> bool" where
  "keeps callee sy fct ra s a =
     (mem (callback_exit callee sy fct ra s) a = mem (callback_entry sy ra s) a)"

subsection \<open>The handler invoked again and again\<close>

text \<open>
  What the processor does when it accepts an interrupt outside a protected module: the
  program counter and the status register go on the stack, the status register is cleared.
\<close>

definition irq_entry :: "machine \<Rightarrow> machine" where
  "irq_entry s =
     (let s' = push (regs s 2) (push (regs s 0) s)
      in s'\<lparr>regs := (regs s')(2 := 0)\<rparr>)"

text \<open>
  A sequence of invocations.  Between two invocations the rest of the system runs and the
  next interrupt is taken: \<open>es\<close> lists these steps, each from the state the previous
  invocation ended in to the state the next one begins in.  The result pairs every entry
  state with the run of the handler from it.
\<close>

fun invocations ::
  "(word16 \<Rightarrow> machine \<Rightarrow> machine list) \<Rightarrow> word16 \<Rightarrow> symbols \<Rightarrow> word16 \<Rightarrow>
   (machine \<Rightarrow> machine) list \<Rightarrow> machine \<Rightarrow> (machine \<times> run) list" where
  "invocations callee ra sy fct [] s = []"
| "invocations callee ra sy fct (e # es) s =
     (let s0 = e s; r = run callee ra (SANCUS_STEP_ISR sy fct) s0
      in (s0, r) # invocations callee ra sy fct es (final s0 r))"

definition ended :: "machine \<times> run \<Rightarrow> machine" where
  "ended i = final (fst i) (snd i)"

text \<open>The timer state the handler can set: the control word and the compare threshold.\<close>

definition timer_words :: "symbols \<Rightarrow> machine \<Rightarrow> word16 \<times> word16" where
  "timer_words sy s = (mem s (TACTL sy), mem s (TACCR0 sy))"

text \<open>The events that decide between the two paths: the comparison and the conditional jump.\<close>

fun test :: "event \<Rightarrow> bool" where
  "test (Ev_cmp src dst) = True"
| "test (Ev_jne l taken) = True"
| "test (Ev_jmp l) = False"
| "test (Ev_mov dst v) = False"
| "test (Ev_push a v) = False"
| "test (Ev_call a) = False"
| "test Ev_inside = False"
| "test Ev_ret = False"
| "test Ev_reti = False"
| "test Ev_dint = False"

subsection \<open>Example states\<close>

text \<open>
  Timer\_A at its MSP430 addresses, the two globals at \<open>0x0400\<close> and \<open>0x0402\<close>, the
  interrupt stack from \<open>0x0600\<close> up to \<open>0x0A00\<close>; a memory in which the timer runs with
  threshold 42 and has counted to 41, \<^verbatim>\<open>__ss_isr_sp\<close> points to the end of the interrupt
  stack, and an interrupt frame (status register \<open>0x0008\<close>, program counter \<open>0x4400\<close>)
  lies at \<open>0x03F0\<close>.
\<close>

definition ex_symbols :: symbols where
  "ex_symbols = \<lparr>TAR = 0x0170, TACCR0 = 0x0172, TACTL = 0x0160, ss_isr_stack = 0x0600,
                  ss_isr_sp = 0x0400, ss_isr_tar_entry = 0x0402\<rparr>"

definition ex_memory :: "word16 \<Rightarrow> word16" where
  "ex_memory = (\<lambda>a. 0)(0x0170 := 0x0029, 0x0172 := 0x002A, 0x0160 := 0x0212,
                         0x0400 := 0x0A00, 0x03F0 := 0x0008, 0x03F2 := 0x4400)"

text \<open>Ordinary code was interrupted: the stack pointer is at the interrupt frame.\<close>

definition ex_idle :: machine where
  "ex_idle = \<lparr>regs = (\<lambda>n. 0)(1 := 0x03F0, 15 := 0x1234), mem = ex_memory\<rparr>"

text \<open>Ordinary code about to be interrupted, the stack pointer just above that frame.\<close>

definition ex_running :: machine where
  "ex_running = \<lparr>regs = (\<lambda>n. 0)(0 := 0x4400, 1 := 0x03F4, 2 := 0x0008), mem = ex_memory\<rparr>"

text \<open>A protected module was interrupted: the stack pointer is zero.\<close>

definition ex_stepping :: machine where
  "ex_stepping = \<lparr>regs = (\<lambda>n. 0)(15 := 0x6000), mem = ex_memory\<rparr>"

text \<open>
  A callback that counts its invocations in the word at \<open>0x0500\<close>: it loads the count
  into \<open>r12\<close>, adds one, stores it, and returns.
\<close>

definition ex_callee :: "word16 \<Rightarrow> machine \<Rightarrow> machine list" where
  "ex_callee a t =
     [t\<lparr>regs := (regs t)(12 := mem t 0x0500)\<rparr>,
      t\<lparr>regs := (regs t)(12 := mem t 0x0500 + 1)\<rparr>,
      t\<lparr>regs := (regs t)(12 := mem t 0x0500 + 1), mem := (mem t)(0x0500 := mem t 0x0500 + 1)\<rparr>]"

text \<open>
  A callback that enables interrupts (\<^verbatim>\<open>eint\<close>), does its work, and disables them again
  before it returns.
\<close>

definition ex_eint_callee :: "word16 \<Rightarrow> machine \<Rightarrow> machine list" where
  "ex_eint_callee a t =
     [t\<lparr>regs := (regs t)(2 := regs t 2 OR GIE)\<rparr>,
      t\<lparr>regs := (regs t)(2 := regs t 2 OR GIE, 12 := 1)\<rparr>,
      t\<lparr>regs := (regs t)(2 := regs t 2 AND NOT GIE, 12 := 1)\<rparr>]"


definition ex_timer_h :: timer_h where
  "ex_timer_h = \<lparr>TACTL_DISABLE = 0x0004, TACTL_ENABLE = 0x0212\<rparr>"

section \<open>Properties\<close>

subsection \<open>The status flags after the comparison\<close>

lemma and_flag_Z: "(w AND flag_Z \<noteq> 0) = bit w 1" for w :: word16
  using and_exp_eq_0_iff_not_bit [of w 1] by (simp add: flag_Z_def)

lemma zero_flag_cmp: "zero_flag (set_flags (cmp_flags src dst) s) = (dst = src)"
  unfolding zero_flag_def and_flag_Z
  by (simp add: set_flags_def cmp_flags_def flag_C_def flag_Z_def flag_N_def flag_V_def bit_simps)

lemma and_GIE: "(w AND GIE = 0) = (\<not> bit w 3)" for w :: word16
  using and_exp_eq_0_iff_not_bit [of w 3] by (simp add: GIE_def)


lemma regs_set_flags [simp]: "n \<noteq> 2 \<Longrightarrow> regs (set_flags f s) n = regs s n"
  by (simp add: set_flags_def)

lemma mem_set_flags [simp]: "mem (set_flags f s) = mem s"
  by (simp add: set_flags_def)

lemma regs_push: "regs (push v s) n = (if n = 1 then regs s 1 - 2 else regs s n)"
  by (simp add: push_def Let_def)


lemma aligned_0 [simp]: "aligned 0 = 0"
  by (simp add: aligned_def)

subsection \<open>The two ways through the handler\<close>

lemma inactive_run:
  assumes "regs s 1 \<noteq> 0"
  shows "run callee ra (SANCUS_STEP_ISR sy fct) s =
    (let s1 = write_op (Abs (ss_isr_tar_entry sy)) (mem s (TAR sy)) s;
         s2 = set_flags (cmp_flags 0 (regs s 1)) s1;
         s3 = write_op (Abs (TACTL sy)) 0 s2
     in ([(Ev_mov (Abs (ss_isr_tar_entry sy)) (mem s (TAR sy)), s1),
          (Ev_cmp (Imm 0) (Reg 1), s2),
          (Ev_jne 1 True, s2),
          (Ev_mov (Abs (TACTL sy)) 0, s3),
          (Ev_reti, reti s3)], AtReti))"
  using assms
  by (simp add: SANCUS_STEP_ISR_def Let_def step_cons_def forward_def zero_flag_cmp)

lemma active_run:
  assumes "regs s 1 = 0"
  shows "run callee ra (SANCUS_STEP_ISR sy fct) s =
    (let s1 = write_op (Abs (ss_isr_tar_entry sy)) (mem s (TAR sy)) s;
         s2 = set_flags (cmp_flags 0 0) s1;
         s3 = write_op (Reg 1) (mem s1 (ss_isr_sp sy)) s2;
         s4 = push (regs s 15) s3;
         s5 = push 0 s4;
         e = callback_entry sy ra s;
         c = callback_exit callee sy fct ra s;
         s6 = c\<lparr>regs := (regs c)(1 := regs c 1 + 2)\<rparr>;
         s7 = write_op (Abs (TACCR0 sy)) 0x41 s6;
         s8 = write_op (Abs (TACTL sy)) 0x212 s7;
         pre = [(Ev_mov (Abs (ss_isr_tar_entry sy)) (mem s (TAR sy)), s1),
                (Ev_cmp (Imm 0) (Reg 1), s2),
                (Ev_jne 1 False, s2),
                (Ev_mov (Reg 1) (mem s1 (ss_isr_sp sy)), s3),
                (Ev_push (aligned (mem s1 (ss_isr_sp sy)) - 2) (regs s 15), s4),
                (Ev_push (aligned (mem s1 (ss_isr_sp sy)) - 4) 0, s5),
                (Ev_call fct, e)] @
               map (Pair Ev_inside) (callback_states callee sy fct ra s) @
               [(Ev_ret, s6)]
     in if comes_back callee sy fct ra s
        then (pre @ [(Ev_mov (Abs (TACCR0 sy)) 0x41, s7),
                     (Ev_mov (Abs (TACTL sy)) 0x212, s8),
                     (Ev_jmp 2, s8),
                     (Ev_reti, reti s8)], AtReti)
        else (pre, CallbackEscaped))"
  using assms
  by (simp add: SANCUS_STEP_ISR_def Let_def step_cons_def forward_def zero_flag_cmp
      comes_back_def callback_exit_def callback_states_def callback_entry_def regs_push)




lemma active_final:
  assumes "regs s 1 = 0" and "comes_back callee sy fct ra s"
  shows "final s (run callee ra (SANCUS_STEP_ISR sy fct) s) =
           (let c = callback_exit callee sy fct ra s
            in reti (c\<lparr>regs := (regs c)(1 := regs c 1 + 2),
                       mem := (mem c)(TACCR0 sy := 0x41, TACTL sy := 0x212)\<rparr>))"
  using assms(2) by (simp add: active_run [OF assms(1)] Let_def final_def states_def)

lemma callback_entry_sp:
  "ss_isr_sp sy \<noteq> ss_isr_tar_entry sy \<Longrightarrow>
   regs (callback_entry sy ra s) 1 = aligned (mem s (ss_isr_sp sy)) - 6"
  by (simp add: callback_entry_def Let_def regs_push)

lemma callback_entry_mem:
  "ss_isr_sp sy \<noteq> ss_isr_tar_entry sy \<Longrightarrow>
   mem (callback_entry sy ra s) =
     (mem s)(ss_isr_tar_entry sy := mem s (TAR sy),
             aligned (mem s (ss_isr_sp sy)) - 2 := regs s 15,
             aligned (mem s (ss_isr_sp sy)) - 4 := 0,
             aligned (mem s (ss_isr_sp sy)) - 6 := ra)"
  by (simp add: callback_entry_def Let_def push_def)

lemma callback_entry_regs:
  "n \<noteq> 1 \<Longrightarrow> n \<noteq> 2 \<Longrightarrow> regs (callback_entry sy ra s) n = regs s n"
  by (simp add: callback_entry_def Let_def regs_push)

lemma ex_stepping_active: "regs ex_stepping 1 = 0"
  by (simp add: ex_stepping_def)

lemma ex_sp_apart: "ss_isr_sp ex_symbols \<noteq> ss_isr_tar_entry ex_symbols"
  by (simp add: ex_symbols_def)

lemma ex_callee_last:
  "last (t # ex_callee a t) =
     t\<lparr>regs := (regs t)(12 := mem t 0x0500 + 1), mem := (mem t)(0x0500 := mem t 0x0500 + 1)\<rparr>"
  by (simp add: ex_callee_def)

lemma ex_callee_exit:
  "callback_exit ex_callee sy fct ra s =
     (callback_entry sy ra s)
       \<lparr>regs := (regs (callback_entry sy ra s))(12 := mem (callback_entry sy ra s) 0x0500 + 1),
        mem := (mem (callback_entry sy ra s))
                 (0x0500 := mem (callback_entry sy ra s) 0x0500 + 1)\<rparr>"
  by (simp only: callback_exit_def callback_states_def ex_callee_last)

lemma ex_callee_ok:
  assumes "mem s (ss_isr_sp ex_symbols) = 0x0A00"
  shows "comes_back ex_callee ex_symbols fct ra s"
    and "balanced ex_callee ex_symbols fct ra s"
    and "a \<noteq> 0x0500 \<Longrightarrow> keeps ex_callee ex_symbols fct ra s a"
proof -
  have sp: "regs (callback_entry ex_symbols ra s) 1 = 0x09FA"
    using callback_entry_sp [OF ex_sp_apart, of ra s] assms by (simp add: aligned_def)
  have m: "mem (callback_entry ex_symbols ra s) 0x09FA = ra"
    using assms by (simp add: callback_entry_mem [OF ex_sp_apart] aligned_def)
  show "comes_back ex_callee ex_symbols fct ra s"
    using sp m by (simp add: comes_back_def ex_callee_exit Let_def)
  show "balanced ex_callee ex_symbols fct ra s"
    by (simp add: balanced_def ex_callee_exit)
  show "a \<noteq> 0x0500 \<Longrightarrow> keeps ex_callee ex_symbols fct ra s a"
    by (simp add: keeps_def ex_callee_exit)
qed

lemma ex_stepping_sp: "mem ex_stepping (ss_isr_sp ex_symbols) = 0x0A00"
  by (simp add: ex_stepping_def ex_symbols_def ex_memory_def)

lemma ex_comes_back: "comes_back ex_callee ex_symbols 0x5800 0x5010 ex_stepping"
  by (rule ex_callee_ok(1) [OF ex_stepping_sp])

lemma timer_fields_0x212:
  "timer_mode 0x212 = 1" "timer_source 0x212 = 2" "timer_irq 0x212"
  by (simp_all add: timer_mode_def timer_source_def timer_irq_def bit_simps)

lemma mem_reti [simp]: "mem (reti s) = mem s"
  by (simp add: reti_def Let_def)

lemma inactive_final:
  assumes "regs s 1 \<noteq> 0"
  shows "mem (final s (run callee ra (SANCUS_STEP_ISR sy fct) s)) =
           (mem s)(ss_isr_tar_entry sy := mem s (TAR sy), TACTL sy := 0)"
  by (simp add: inactive_run [OF assms] Let_def final_def states_def reti_def)

lemma inactive_trace:
  assumes "regs s 1 \<noteq> 0"
  shows "trace (run callee ra (SANCUS_STEP_ISR sy fct) s) =
           [Ev_mov (Abs (ss_isr_tar_entry sy)) (mem s (TAR sy)), Ev_cmp (Imm 0) (Reg 1),
            Ev_jne 1 True, Ev_mov (Abs (TACTL sy)) 0, Ev_reti]"
  by (simp add: inactive_run [OF assms] Let_def trace_def)

lemma inactive_stop:
  assumes "regs s 1 \<noteq> 0"
  shows "snd (run callee ra (SANCUS_STEP_ISR sy fct) s) = AtReti"
  by (simp add: inactive_run [OF assms] Let_def)

lemma invocations_run:
  "(s0, r) \<in> set (invocations callee ra sy fct es s) \<Longrightarrow>
   r = run callee ra (SANCUS_STEP_ISR sy fct) s0"
  by (induction es arbitrary: s) (auto simp: Let_def)

lemma inactive_ended:
  assumes "i \<in> set (invocations callee ra sy fct es s)" and "regs (fst i) 1 \<noteq> 0"
  shows "mem (ended i) = (mem (fst i))(ss_isr_tar_entry sy := mem (fst i) (TAR sy), TACTL sy := 0)"
    and "trace (snd i) =
           [Ev_mov (Abs (ss_isr_tar_entry sy)) (mem (fst i) (TAR sy)), Ev_cmp (Imm 0) (Reg 1),
            Ev_jne 1 True, Ev_mov (Abs (TACTL sy)) 0, Ev_reti]"
    and "snd (snd i) = AtReti"
proof -
  from assms(1) have r: "snd i = run callee ra (SANCUS_STEP_ISR sy fct) (fst i)"
    using invocations_run [of "fst i" "snd i"] by simp
  show "mem (ended i) = (mem (fst i))(ss_isr_tar_entry sy := mem (fst i) (TAR sy), TACTL sy := 0)"
    by (simp add: ended_def r inactive_final [OF assms(2)])
  show "trace (snd i) =
           [Ev_mov (Abs (ss_isr_tar_entry sy)) (mem (fst i) (TAR sy)), Ev_cmp (Imm 0) (Reg 1),
            Ev_jne 1 True, Ev_mov (Abs (TACTL sy)) 0, Ev_reti]"
    by (simp add: r inactive_trace [OF assms(2)])
  show "snd (snd i) = AtReti"
    by (simp add: r inactive_stop [OF assms(2)])
qed

lemma timer_mode_0: "timer_mode 0 = 0"
  by (simp add: timer_mode_def)

lemma ex_idle_inactive: "regs ex_idle 1 \<noteq> 0"
  by (simp add: ex_idle_def)

lemma ex_twice_entries:
  "map (\<lambda>i. regs (fst i) 1)
     (invocations ex_callee 0x5010 ex_symbols 0x5800 [irq_entry, irq_entry] ex_running) =
   [0x03F0, 0x03F0]"
  by (simp add: Let_def inactive_run irq_entry_def push_def ex_running_def final_def states_def
      reti_def ex_memory_def)

subsection \<open>The interrupt-enable bit\<close>

lemma gie_clear_write_abs [simp]: "gie_clear (write_op (Abs a) v s) = gie_clear s"
  by (simp add: gie_clear_def)

lemma gie_clear_mem_update [simp]: "gie_clear (s\<lparr>mem := m\<rparr>) = gie_clear s"
  by (simp add: gie_clear_def)

lemma gie_clear_regs_update [simp]:
  "n \<noteq> 2 \<Longrightarrow> gie_clear (s\<lparr>regs := (regs t)(n := v)\<rparr>) = gie_clear t"
  by (simp add: gie_clear_def)

lemma gie_clear_push [simp]: "gie_clear (push v s) = gie_clear s"
  by (simp add: gie_clear_def push_def Let_def)

lemma gie_clear_dint [simp]: "gie_clear (dint s)"
  unfolding gie_clear_def and_GIE
  by (simp add: dint_def GIE_def bit_simps)

lemma gie_clear_irq_entry: "gie_clear (irq_entry s)"
  by (simp add: gie_clear_def irq_entry_def Let_def)


lemma init_run:
  "run callee ra (SANCUS_STEP_INIT sy h) s =
     (let s1 = dint s;
          s2 = write_op (Abs (TACTL sy)) (TACTL_DISABLE h) s1;
          s3 = write_op (Abs (TACCR0 sy)) INIT_LATENCY s2;
          s4 = write_op (Abs (TACTL sy)) (TACTL_ENABLE h) s3
      in ([(Ev_dint, s1),
           (Ev_mov (Abs (TACTL sy)) (TACTL_DISABLE h), s2),
           (Ev_mov (Abs (TACCR0 sy)) INIT_LATENCY, s3),
           (Ev_mov (Abs (TACTL sy)) (TACTL_ENABLE h), s4)], AtEnd))"
  by (simp add: SANCUS_STEP_INIT_def Let_def step_cons_def)

subsection \<open>The interrupt stack\<close>















subsection \<open>Interrupts and the callback\<close>







text \<open>Taken after \<open>irq_entry\<close>, the handler so gives back the registers of the interrupted code.\<close>

lemma irq_entry_frame:
  "regs (irq_entry t) = (regs t)(1 := regs t 1 - 4, 2 := 0)"
  "mem (irq_entry t) (regs (irq_entry t) 1) = regs t 2"
  "mem (irq_entry t) (regs (irq_entry t) 1 + 2) = regs t 0"
  by (simp_all add: irq_entry_def push_def Let_def fun_eq_iff)



text \<open>
  The callback that enables interrupts for a while comes back with them disabled, but not
  all the states it passes through have them disabled.
\<close>

lemma ex_eint_callee_unmasked:
  "gie_clear (callback_exit ex_eint_callee sy fct ra s)"
  "\<not> (\<forall>t \<in> set (callback_states ex_eint_callee sy fct ra s). gie_clear t)"
  unfolding gie_clear_def and_GIE
  by (simp_all add: callback_exit_def callback_states_def ex_eint_callee_def GIE_def bit_simps)

lemma ex_irq_entry: "regs (irq_entry ex_running) 1 = 0x03F0" "gie_clear (irq_entry ex_running)"
  by (simp_all add: irq_entry_frame gie_clear_irq_entry ex_running_def)






subsection \<open>The path taken when a module was executing\<close>




subsection \<open>The test of the stack pointer\<close>

text \<open>
  Claim C2.  On every invocation the choice between the two paths is made by one
  comparison of one machine word, the stack pointer \<open>r1\<close>, with zero, followed by one
  conditional jump: the run holds exactly one comparison, \<^verbatim>\<open>cmp #0x0, r1\<close>, and one
  \<^verbatim>\<open>jne\<close>, taken exactly when \<open>r1\<close> is not zero.  With \<open>r1\<close> zero (a module was executing)
  the fourth step is the switch of the stack pointer and the callback is called; with any
  other value the fourth step is the write of 0 to \<^verbatim>\<open>TACTL\<close> and no callback is called.
\<close>

theorem context_test:
  "filter test (trace (run callee ra (SANCUS_STEP_ISR sy fct) s)) =
     [Ev_cmp (Imm 0) (Reg 1), Ev_jne 1 (regs s 1 \<noteq> 0)] \<and>
   (Ev_call fct \<in> set (trace (run callee ra (SANCUS_STEP_ISR sy fct) s))) = (regs s 1 = 0) \<and>
   (\<exists>v. trace (run callee ra (SANCUS_STEP_ISR sy fct) s) ! 3 = Ev_mov (Reg 1) v) = (regs s 1 = 0) \<and>
   (trace (run callee ra (SANCUS_STEP_ISR sy fct) s) ! 3 = Ev_mov (Abs (TACTL sy)) 0) =
     (regs s 1 \<noteq> 0)"
proof (cases "regs s 1 = 0")
  case True
  then show ?thesis
    by (simp add: active_run [OF True] Let_def trace_def)
next
  case False
  then show ?thesis
    by (simp add: inactive_run [OF False] Let_def trace_def)
qed

subsection \<open>The path taken when no module was executing\<close>

text \<open>
  Claim C3, as the header has it.  When \<open>r1\<close> is not zero the handler executes five
  instructions and ends at \<^verbatim>\<open>reti\<close>: it stores \<^verbatim>\<open>TAR\<close> into \<^verbatim>\<open>__ss_isr_tar_entry\<close>,
  compares, jumps, and writes 0 to \<^verbatim>\<open>TACTL\<close>.  No callback is called and the stack pointer
  is not switched.  The state in which \<^verbatim>\<open>reti\<close> is entered differs from the entry state in
  the two words \<^verbatim>\<open>__ss_isr_tar_entry\<close> and \<^verbatim>\<open>TACTL\<close> and in the arithmetic flags the
  comparison sets, and in nothing else.
\<close>

theorem inactive_frame:
  assumes "regs s 1 \<noteq> 0"
  shows "trace (run callee ra (SANCUS_STEP_ISR sy fct) s) =
           [Ev_mov (Abs (ss_isr_tar_entry sy)) (mem s (TAR sy)), Ev_cmp (Imm 0) (Reg 1),
            Ev_jne 1 True, Ev_mov (Abs (TACTL sy)) 0, Ev_reti] \<and>
         snd (run callee ra (SANCUS_STEP_ISR sy fct) s) = AtReti \<and>
         at_return s (run callee ra (SANCUS_STEP_ISR sy fct) s) =
           set_flags (cmp_flags 0 (regs s 1))
             (s\<lparr>mem := (mem s)(ss_isr_tar_entry sy := mem s (TAR sy), TACTL sy := 0)\<rparr>) \<and>
         regs (at_return s (run callee ra (SANCUS_STEP_ISR sy fct) s)) 1 = regs s 1"
  by (simp add: inactive_run [OF assms] Let_def trace_def at_return_def states_def set_flags_def)

theorem inactive_frame_witness:
  "regs ex_idle 1 \<noteq> 0 \<and>
   trace (run ex_callee 0x5010 (SANCUS_STEP_ISR ex_symbols 0x5800) ex_idle) =
     [Ev_mov (Abs 0x0402) 0x0029, Ev_cmp (Imm 0) (Reg 1), Ev_jne 1 True,
      Ev_mov (Abs 0x0160) 0, Ev_reti]"
  using ex_idle_inactive
    inactive_frame [OF ex_idle_inactive, of ex_callee "0x5010" ex_symbols "0x5800"]
  by (simp add: ex_idle_def ex_symbols_def ex_memory_def)

text \<open>
  The claim as the specification words it, that nothing but the timer's enable state is
  modified before the return, fails: in the example, \<^verbatim>\<open>reti\<close> is entered with
  \<^verbatim>\<open>__ss_isr_tar_entry\<close> holding the 41 read from \<^verbatim>\<open>TAR\<close>, where it held 0.
\<close>

theorem inactive_touches_tar_entry:
  "regs ex_idle 1 \<noteq> 0 \<and>
   at_return ex_idle (run ex_callee 0x5010 (SANCUS_STEP_ISR ex_symbols 0x5800) ex_idle) \<noteq>
     ex_idle\<lparr>mem := (mem ex_idle)(TACTL ex_symbols := 0)\<rparr> \<and>
   mem ex_idle (ss_isr_tar_entry ex_symbols) = 0 \<and>
   mem (at_return ex_idle (run ex_callee 0x5010 (SANCUS_STEP_ISR ex_symbols 0x5800) ex_idle))
     (ss_isr_tar_entry ex_symbols) = 0x0029"
proof -
  let ?t = "at_return ex_idle (run ex_callee 0x5010 (SANCUS_STEP_ISR ex_symbols 0x5800) ex_idle)"
  have a: "mem ?t (ss_isr_tar_entry ex_symbols) = 0x0029"
    by (simp add: inactive_run [OF ex_idle_inactive] Let_def at_return_def states_def,
        simp add: ex_idle_def ex_symbols_def ex_memory_def)
  have b: "mem ex_idle (ss_isr_tar_entry ex_symbols) = 0"
    by (simp add: ex_idle_def ex_symbols_def ex_memory_def)
  have c: "mem (ex_idle\<lparr>mem := (mem ex_idle)(TACTL ex_symbols := 0)\<rparr>)
             (ss_isr_tar_entry ex_symbols) = 0"
    by (simp add: ex_idle_def ex_symbols_def ex_memory_def)
  have "?t \<noteq> ex_idle\<lparr>mem := (mem ex_idle)(TACTL ex_symbols := 0)\<rparr>"
  proof
    assume "?t = ex_idle\<lparr>mem := (mem ex_idle)(TACTL ex_symbols := 0)\<rparr>"
    then have "mem ?t (ss_isr_tar_entry ex_symbols) = 0" using c by simp
    with a show False by simp
  qed
  with ex_idle_inactive a b show ?thesis by simp
qed

subsection \<open>The end of the handler\<close>



subsection \<open>Invocations while no module is executing\<close>

text \<open>
  Claim C5, as the header has it.  Take any sequence of invocations of the handler, with
  anything happening between them, in which every invocation begins with \<open>r1\<close> not zero.
  Then no invocation calls a callback, every invocation ends at \<^verbatim>\<open>reti\<close> with \<^verbatim>\<open>TACTL\<close>
  holding 0, so with the timer not enabled at its end; and an invocation that begins with
  the threshold the previous one ended with leaves control word and threshold exactly as
  the previous one left them: the second execution of the path changes nothing in the
  timer state.
\<close>

theorem inactive_invocations:
  assumes "\<forall>i \<in> set (invocations callee ra sy fct es s). regs (fst i) 1 \<noteq> 0"
    and "TACCR0 sy \<noteq> TACTL sy" and "TACCR0 sy \<noteq> ss_isr_tar_entry sy"
  shows "(\<forall>i \<in> set (invocations callee ra sy fct es s).
            (\<forall>a. Ev_call a \<notin> set (trace (snd i))) \<and> snd (snd i) = AtReti \<and>
            mem (ended i) (TACTL sy) = 0 \<and> \<not> timer_enabled sy (ended i)) \<and>
         (\<forall>k. Suc k < length (invocations callee ra sy fct es s) \<longrightarrow>
            mem (fst (invocations callee ra sy fct es s ! Suc k)) (TACCR0 sy) =
              mem (ended (invocations callee ra sy fct es s ! k)) (TACCR0 sy) \<longrightarrow>
            timer_words sy (ended (invocations callee ra sy fct es s ! Suc k)) =
              timer_words sy (ended (invocations callee ra sy fct es s ! k)))"
proof (intro conjI ballI allI impI)
  fix i a
  assume m: "i \<in> set (invocations callee ra sy fct es s)"
  with assms(1) have n: "regs (fst i) 1 \<noteq> 0" by blast
  show "Ev_call a \<notin> set (trace (snd i))"
    by (simp add: inactive_ended(2) [OF m n])
  show "snd (snd i) = AtReti"
    by (rule inactive_ended(3) [OF m n])
  show "mem (ended i) (TACTL sy) = 0"
    by (simp add: inactive_ended(1) [OF m n])
  then show "\<not> timer_enabled sy (ended i)"
    by (simp add: timer_enabled_def timer_mode_0)
next
  fix k
  let ?is = "invocations callee ra sy fct es s"
  assume k: "Suc k < length ?is"
    and same: "mem (fst (?is ! Suc k)) (TACCR0 sy) = mem (ended (?is ! k)) (TACCR0 sy)"
  from k have m1: "?is ! k \<in> set ?is" and m2: "?is ! Suc k \<in> set ?is"
    by simp_all
  from m1 m2 assms(1) have n1: "regs (fst (?is ! k)) 1 \<noteq> 0" and n2: "regs (fst (?is ! Suc k)) 1 \<noteq> 0"
    by blast+
  show "timer_words sy (ended (?is ! Suc k)) = timer_words sy (ended (?is ! k))"
    using same assms(2,3)
    by (simp add: timer_words_def inactive_ended(1) [OF m1 n1] inactive_ended(1) [OF m2 n2])
qed

theorem inactive_invocations_witness:
  "list_all (\<lambda>i. regs (fst i) 1 \<noteq> 0)
     (invocations ex_callee 0x5010 ex_symbols 0x5800 [irq_entry, irq_entry] ex_running) \<and>
   length (invocations ex_callee 0x5010 ex_symbols 0x5800 [irq_entry, irq_entry] ex_running) = 2 \<and>
   list_all (\<lambda>i. mem (ended i) (TACTL ex_symbols) = 0 \<and> \<not> timer_enabled ex_symbols (ended i))
     (invocations ex_callee 0x5010 ex_symbols 0x5800 [irq_entry, irq_entry] ex_running)"
proof -
  let ?is = "invocations ex_callee 0x5010 ex_symbols 0x5800 [irq_entry, irq_entry] ex_running"
  have "list_all (\<lambda>v. v \<noteq> 0) (map (\<lambda>i. regs (fst i) 1) ?is)"
    unfolding ex_twice_entries by simp
  then have h: "\<forall>i \<in> set ?is. regs (fst i) 1 \<noteq> 0"
    by (simp add: list_all_iff)
  have d: "TACCR0 ex_symbols \<noteq> TACTL ex_symbols"
    "TACCR0 ex_symbols \<noteq> ss_isr_tar_entry ex_symbols"
    by (simp_all add: ex_symbols_def)
  have l: "length ?is = 2" by (simp add: Let_def)
  from inactive_invocations [OF h d]
  have "\<forall>i \<in> set ?is. mem (ended i) (TACTL ex_symbols) = 0 \<and> \<not> timer_enabled ex_symbols (ended i)"
    by blast
  with h l show ?thesis by (simp add: list_all_iff)
qed

text \<open>
  The timer is not disabled whenever no module is being stepped.  The first invocation of
  the example sequence begins with \<open>r1\<close> not zero and the timer enabled: it is enabled
  until the handler has run.  And \<^verbatim>\<open>SANCUS_STEP_INIT\<close>, run by ordinary code, itself leaves
  the timer enabled with \<open>r1\<close> not zero.
\<close>

theorem timer_enabled_at_entry:
  "regs (fst (hd (invocations ex_callee 0x5010 ex_symbols 0x5800 [irq_entry, irq_entry] ex_running))) 1
     \<noteq> 0 \<and>
   timer_enabled ex_symbols
     (fst (hd (invocations ex_callee 0x5010 ex_symbols 0x5800 [irq_entry, irq_entry] ex_running))) \<and>
   regs (final ex_running (run ex_callee 0x5010 (SANCUS_STEP_INIT ex_symbols ex_timer_h) ex_running)) 1
     \<noteq> 0 \<and>
   timer_enabled ex_symbols
     (final ex_running (run ex_callee 0x5010 (SANCUS_STEP_INIT ex_symbols ex_timer_h) ex_running))"
proof -
  have e: "fst (hd (invocations ex_callee 0x5010 ex_symbols 0x5800 [irq_entry, irq_entry] ex_running))
            = irq_entry ex_running"
    by (simp add: Let_def)
  have m: "mem (irq_entry ex_running) (TACTL ex_symbols) = 0x212"
    by (simp add: irq_entry_def push_def Let_def ex_running_def ex_symbols_def ex_memory_def)
  have i: "regs (final ex_running (run ex_callee 0x5010 (SANCUS_STEP_INIT ex_symbols ex_timer_h) ex_running)) 1
             = 0x03F4"
    "mem (final ex_running (run ex_callee 0x5010 (SANCUS_STEP_INIT ex_symbols ex_timer_h) ex_running))
       (TACTL ex_symbols) = 0x212"
    by (simp_all add: init_run Let_def final_def states_def dint_def ex_running_def ex_timer_h_def)
  show ?thesis
    unfolding e using ex_irq_entry(1) m i
    by (simp add: timer_enabled_def timer_fields_0x212)
qed

subsection \<open>Initialisation\<close>

text \<open>
  Claim C6.  \<^verbatim>\<open>SANCUS_STEP_INIT\<close> executes four steps from any state and then runs off its
  end, there being no other outcome: \<^verbatim>\<open>dint\<close>, the write of \<^verbatim>\<open>TACTL_DISABLE\<close> to
  \<^verbatim>\<open>TACTL\<close>, the write of \<^verbatim>\<open>INIT_LATENCY\<close>, 42, to \<^verbatim>\<open>TACCR0\<close>, the write of
  \<^verbatim>\<open>TACTL_ENABLE\<close> to \<^verbatim>\<open>TACTL\<close>.  Interrupts are disabled after every step.  If
  \<^verbatim>\<open>TACTL_DISABLE\<close> has mode 0 the timer is stopped after the second step; if
  \<^verbatim>\<open>TACTL_ENABLE\<close> is the \<open>0x212\<close> that line 42 says it is, the timer ends enabled in up
  mode, with clock source 2 (the one line 26 calls mclk) and its interrupt enabled.
\<close>

theorem init_sequence:
  "trace (run callee ra (SANCUS_STEP_INIT sy h) s) =
     [Ev_dint,
      Ev_mov (Abs (TACTL sy)) (TACTL_DISABLE h),
      Ev_mov (Abs (TACCR0 sy)) INIT_LATENCY,
      Ev_mov (Abs (TACTL sy)) (TACTL_ENABLE h)] \<and>
   INIT_LATENCY = 42 \<and>
   snd (run callee ra (SANCUS_STEP_INIT sy h) s) = AtEnd \<and>
   (\<forall>t \<in> set (states (run callee ra (SANCUS_STEP_INIT sy h) s)). gie_clear t) \<and>
   mem (final s (run callee ra (SANCUS_STEP_INIT sy h) s)) (TACTL sy) = TACTL_ENABLE h \<and>
   (TACCR0 sy \<noteq> TACTL sy \<longrightarrow>
      mem (final s (run callee ra (SANCUS_STEP_INIT sy h) s)) (TACCR0 sy) = 42) \<and>
   (timer_mode (TACTL_DISABLE h) = 0 \<longrightarrow>
      \<not> timer_enabled sy (states (run callee ra (SANCUS_STEP_INIT sy h) s) ! 1)) \<and>
   (TACTL_ENABLE h = 0x212 \<longrightarrow>
      timer_enabled sy (final s (run callee ra (SANCUS_STEP_INIT sy h) s)) \<and>
      timer_mode (mem (final s (run callee ra (SANCUS_STEP_INIT sy h) s)) (TACTL sy)) = 1 \<and>
      timer_source (mem (final s (run callee ra (SANCUS_STEP_INIT sy h) s)) (TACTL sy)) = 2 \<and>
      timer_irq (mem (final s (run callee ra (SANCUS_STEP_INIT sy h) s)) (TACTL sy)))"
  by (simp add: init_run Let_def trace_def states_def final_def INIT_LATENCY_def
      timer_enabled_def timer_fields_0x212)

theorem init_sequence_witness:
  "\<not> gie_clear ex_running \<and> TACCR0 ex_symbols \<noteq> TACTL ex_symbols \<and>
   timer_mode (TACTL_DISABLE ex_timer_h) = 0 \<and> TACTL_ENABLE ex_timer_h = 0x212 \<and>
   gie_clear (final ex_running (run ex_callee 0x5010 (SANCUS_STEP_INIT ex_symbols ex_timer_h) ex_running)) \<and>
   mem (final ex_running (run ex_callee 0x5010 (SANCUS_STEP_INIT ex_symbols ex_timer_h) ex_running))
     (TACCR0 ex_symbols) = 42 \<and>
   timer_mode (mem (final ex_running
     (run ex_callee 0x5010 (SANCUS_STEP_INIT ex_symbols ex_timer_h) ex_running)) (TACTL ex_symbols)) = 1"
proof -
  have g: "\<not> gie_clear ex_running"
    by (simp add: gie_clear_def ex_running_def GIE_def)
  have d: "TACCR0 ex_symbols \<noteq> TACTL ex_symbols"
    by (simp add: ex_symbols_def)
  have h: "timer_mode (TACTL_DISABLE ex_timer_h) = 0" "TACTL_ENABLE ex_timer_h = 0x212"
    by (simp_all add: ex_timer_h_def timer_mode_def)
  have s: "final ex_running (run ex_callee 0x5010 (SANCUS_STEP_INIT ex_symbols ex_timer_h) ex_running)
             \<in> set (states (run ex_callee 0x5010 (SANCUS_STEP_INIT ex_symbols ex_timer_h) ex_running))"
    by (simp add: init_run Let_def final_def states_def)
  show ?thesis
    using g d h s init_sequence [of ex_callee "0x5010" ex_symbols ex_timer_h ex_running]
    by (simp add: timer_fields_0x212)
qed

subsection \<open>The resume latency\<close>

text \<open>
  Claim C7.  When the handler rearms, it writes the literal \<open>0x41\<close>, 65, to \<^verbatim>\<open>TACCR0\<close> and
  then \<open>0x212\<close> to \<^verbatim>\<open>TACTL\<close>, as its last two writes: whatever the entry state and the
  callback, the run ends with the threshold 65 and the timer enabled.  The value is a
  constant of the header's text, as are \<^verbatim>\<open>HW_IRQ_LATENCY\<close>, 34, and \<^verbatim>\<open>INIT_LATENCY\<close>, 42.
\<close>

theorem rearm_is_constant:
  assumes "regs s 1 = 0" and "comes_back callee sy fct ra s" and "TACCR0 sy \<noteq> TACTL sy"
  shows "(\<exists>pre. trace (run callee ra (SANCUS_STEP_ISR sy fct) s) =
            pre @ [Ev_mov (Abs (TACCR0 sy)) 0x41, Ev_mov (Abs (TACTL sy)) 0x212,
                   Ev_jmp 2, Ev_reti]) \<and>
         mem (final s (run callee ra (SANCUS_STEP_ISR sy fct) s)) (TACCR0 sy) = 65 \<and>
         mem (final s (run callee ra (SANCUS_STEP_ISR sy fct) s)) (TACTL sy) = 0x212 \<and>
         timer_enabled sy (final s (run callee ra (SANCUS_STEP_ISR sy fct) s)) \<and>
         HW_IRQ_LATENCY = 34 \<and> INIT_LATENCY = 42"
proof -
  have "\<exists>pre. trace (run callee ra (SANCUS_STEP_ISR sy fct) s) =
            pre @ [Ev_mov (Abs (TACCR0 sy)) 0x41, Ev_mov (Abs (TACTL sy)) 0x212,
                   Ev_jmp 2, Ev_reti]"
    using assms(2) by (simp add: active_run [OF assms(1)] Let_def trace_def)
  moreover have "mem (final s (run callee ra (SANCUS_STEP_ISR sy fct) s)) (TACCR0 sy) = 65"
    and "mem (final s (run callee ra (SANCUS_STEP_ISR sy fct) s)) (TACTL sy) = 0x212"
    using assms(3) by (simp_all add: active_final [OF assms(1,2)] Let_def)
  ultimately show ?thesis
    by (simp add: timer_enabled_def timer_fields_0x212 HW_IRQ_LATENCY_def INIT_LATENCY_def)
qed

theorem rearm_is_constant_witness:
  "regs ex_stepping 1 = 0 \<and> comes_back ex_callee ex_symbols 0x5800 0x5010 ex_stepping \<and>
   TACCR0 ex_symbols \<noteq> TACTL ex_symbols \<and>
   mem ex_stepping (TACCR0 ex_symbols) = 42 \<and>
   mem (final ex_stepping (run ex_callee 0x5010 (SANCUS_STEP_ISR ex_symbols 0x5800) ex_stepping))
     (TACCR0 ex_symbols) = 65"
proof -
  have d: "TACCR0 ex_symbols \<noteq> TACTL ex_symbols"
    by (simp add: ex_symbols_def)
  have m: "mem ex_stepping (TACCR0 ex_symbols) = 42"
    by (simp add: ex_stepping_def ex_symbols_def ex_memory_def)
  show ?thesis
    using ex_stepping_active ex_comes_back d m
      rearm_is_constant [OF ex_stepping_active ex_comes_back d]
    by simp
qed

subsection \<open>The entry time stamp\<close>

text \<open>
  Claim C8.  On every invocation of the handler, whatever the stack pointer holds and
  whatever the callback does, the first instruction executed stores the timer counter
  \<^verbatim>\<open>TAR\<close> into \<^verbatim>\<open>__ss_isr_tar_entry\<close>: the first step of the run is that store and leaves
  the entry state changed in that one word only, and the test of \<open>r1\<close> is the second step.
\<close>

theorem tar_entry_stored_first:
  "take 1 (fst (run callee ra (SANCUS_STEP_ISR sy fct) s)) =
     [(Ev_mov (Abs (ss_isr_tar_entry sy)) (mem s (TAR sy)),
       s\<lparr>mem := (mem s)(ss_isr_tar_entry sy := mem s (TAR sy))\<rparr>)] \<and>
   take 2 (trace (run callee ra (SANCUS_STEP_ISR sy fct) s)) =
     [Ev_mov (Abs (ss_isr_tar_entry sy)) (mem s (TAR sy)), Ev_cmp (Imm 0) (Reg 1)]"
proof (cases "regs s 1 = 0")
  case True
  then show ?thesis
    by (simp add: active_run [OF True] Let_def trace_def)
next
  case False
  then show ?thesis
    by (simp add: inactive_run [OF False] Let_def trace_def)
qed

subsection \<open>The interrupt stack over the invocations\<close>




subsection \<open>The threshold when the timer is disabled\<close>

text \<open>
  Claim C10.  When \<open>r1\<close> is not zero and \<^verbatim>\<open>TACCR0\<close> is a word of its own, the handler ends
  with \<^verbatim>\<open>TACTL\<close> holding 0 and \<^verbatim>\<open>TACCR0\<close> holding what it held at entry: no executed
  instruction writes \<^verbatim>\<open>TACCR0\<close>.  Whatever is written to \<^verbatim>\<open>TACTL\<close> afterwards, to enable
  the timer again, finds that threshold in place.
\<close>

theorem threshold_survives_disable:
  assumes "regs s 1 \<noteq> 0" and "TACCR0 sy \<noteq> TACTL sy" and "TACCR0 sy \<noteq> ss_isr_tar_entry sy"
  shows "mem (final s (run callee ra (SANCUS_STEP_ISR sy fct) s)) (TACTL sy) = 0 \<and>
         mem (final s (run callee ra (SANCUS_STEP_ISR sy fct) s)) (TACCR0 sy) = mem s (TACCR0 sy) \<and>
         (\<forall>v. Ev_mov (Abs (TACCR0 sy)) v \<notin> set (trace (run callee ra (SANCUS_STEP_ISR sy fct) s))) \<and>
         (\<forall>w. mem (write_op (Abs (TACTL sy)) w (final s (run callee ra (SANCUS_STEP_ISR sy fct) s)))
                (TACCR0 sy) = mem s (TACCR0 sy))"
  using assms(2,3)
  by (simp add: inactive_final [OF assms(1)] inactive_trace [OF assms(1)])

theorem threshold_survives_disable_witness:
  "regs ex_idle 1 \<noteq> 0 \<and> TACCR0 ex_symbols \<noteq> TACTL ex_symbols \<and>
   TACCR0 ex_symbols \<noteq> ss_isr_tar_entry ex_symbols \<and>
   mem ex_idle (TACTL ex_symbols) = 0x0212 \<and>
   mem (final ex_idle (run ex_callee 0x5010 (SANCUS_STEP_ISR ex_symbols 0x5800) ex_idle))
     (TACTL ex_symbols) = 0 \<and>
   mem (final ex_idle (run ex_callee 0x5010 (SANCUS_STEP_ISR ex_symbols 0x5800) ex_idle))
     (TACCR0 ex_symbols) = 0x002A"
proof -
  have d: "TACCR0 ex_symbols \<noteq> TACTL ex_symbols"
    "TACCR0 ex_symbols \<noteq> ss_isr_tar_entry ex_symbols"
    by (simp_all add: ex_symbols_def)
  have m: "mem ex_idle (TACTL ex_symbols) = 0x0212" "mem ex_idle (TACCR0 ex_symbols) = 0x002A"
    by (simp_all add: ex_idle_def ex_symbols_def ex_memory_def)
  show ?thesis
    using ex_idle_inactive d m
      threshold_survives_disable [OF ex_idle_inactive d, of ex_callee "0x5010" "0x5800"]
    by simp
qed

end
